theory Spec2Isabelle
  imports Main
begin

section \<open>JavaScript values\<close>

text \<open>
  The values the code tests for truthiness or interpolates into a template literal:
  \<open>undefined\<close> (a property that was never written, or a field missing from the request
  body), \<open>null\<close> (what \<open>/api/record/stop\<close> writes into \<open>pipelineId\<close>), a string, a
  number or a boolean (given by its truthiness and its string conversion), and an array,
  an object or a function (always truthy, given by its string conversion when it has
  one). A request body is unvalidated JSON, and a JSON object such as
  \<^verbatim>\<open>{"toString": 1}\<close> has no string conversion: its \<open>toString\<close> is not callable and
  the inherited \<open>valueOf\<close> returns the object itself.
\<close>

datatype jsval = JUndefined | JNull | JStr string | JPrim bool string | JObject "string option"

fun truthy :: "jsval \<Rightarrow> bool" where
  "truthy JUndefined = False"
| "truthy JNull = False"
| "truthy (JStr s) = (s \<noteq> [])"
| "truthy (JPrim b s) = b"
| "truthy (JObject c) = True"

text \<open>
  What a template literal \<^verbatim>\<open>${v}\<close> inserts; \<open>None\<close> when the conversion raises
  \<open>TypeError\<close>, whose message is \<open>cannot_convert\<close>.
\<close>

fun to_string :: "jsval \<Rightarrow> string option" where
  "to_string JUndefined = Some ''undefined''"
| "to_string JNull = Some ''null''"
| "to_string (JStr s) = Some s"
| "to_string (JPrim b s) = Some s"
| "to_string (JObject c) = c"

definition cannot_convert :: string where
  "cannot_convert = ''Cannot convert object to primitive value''"

text \<open>\<^verbatim>\<open>s.split(c)\<close> for a one-character separator: never the empty list.\<close>

fun split :: "char \<Rightarrow> string \<Rightarrow> string list" where
  "split c [] = [[]]"
| "split c (x # xs) =
     (if x = c then [] # split c xs
      else (case split c xs of [] \<Rightarrow> [[x]] | p # ps \<Rightarrow> (x # p) # ps))"

text \<open>\<^verbatim>\<open>xs[i]\<close> on an array of strings: \<open>undefined\<close> (\<open>None\<close>) out of range.\<close>

definition index :: "string list \<Rightarrow> nat \<Rightarrow> string option" where
  "index xs i = (if i < length xs then Some (xs ! i) else None)"

section \<open>Plain objects used as tables\<close>

text \<open>
  \<^verbatim>\<open>const meetings = {}\<close>, the \<open>attendees\<close> of a meeting and the rosters the client
  holds are plain objects: a read \<^verbatim>\<open>obj[key]\<close> that finds no own property goes on to
  \<open>Object.prototype\<close>, whose members are all truthy. A map gives the own properties.
\<close>

definition object_prototype_keys :: "string list" where
  "object_prototype_keys =
     [''constructor'', ''__proto__'', ''hasOwnProperty'', ''isPrototypeOf'',
      ''propertyIsEnumerable'', ''toLocaleString'', ''toString'', ''valueOf'',
      ''__defineGetter__'', ''__defineSetter__'', ''__lookupGetter__'', ''__lookupSetter__'']"

text \<open>
  The inherited member under a key of \<open>Object.prototype\<close>: \<open>__proto__\<close> reads as
  \<open>Object.prototype\<close> itself, \<open>constructor\<close> is the function \<open>Object\<close>, every other
  member is a function named as its key. The string conversion of a native function is
  written as V8 (Node, Chrome) prints it.
\<close>

definition inherited_member :: "string \<Rightarrow> jsval" where
  "inherited_member k =
     JObject (Some
       (if k = ''__proto__'' then ''[object Object]''
        else ''function '' @ (if k = ''constructor'' then ''Object'' else k) @
             ''() { [native code] }''))"

type_synonym roster = "string \<rightharpoonup> jsval"

text \<open>\<^verbatim>\<open>roster[attendeeId]\<close>.\<close>

definition roster_get :: "roster \<Rightarrow> string \<Rightarrow> jsval" where
  "roster_get r a =
     (case r a of
        Some v \<Rightarrow> v
      | None \<Rightarrow> if a \<in> set object_prototype_keys then inherited_member a else JUndefined)"

text \<open>
  \<^verbatim>\<open>attendees[attendeeId] = name\<close>: under every key but \<open>__proto__\<close> the assignment
  creates or overwrites the own property. Under \<open>__proto__\<close> it runs the inherited
  setter instead, which creates no own property; it can replace the prototype of
  \<open>attendees\<close>, which no handler reads through (the answers carry own properties
  only). What a second assignment under \<open>__proto__\<close> does after such a replacement
  depends on the object the first one installed and is not modelled: the provider's
  ids are GUIDs.
\<close>

definition roster_put :: "roster \<Rightarrow> string \<Rightarrow> jsval \<Rightarrow> roster" where
  "roster_put r a name = (if a = ''__proto__'' then r else r(a \<mapsto> name))"

text \<open>
  What \<open>res.json\<close> sends for a roster and the client parses: the own properties, without
  those whose value is \<open>undefined\<close>.
\<close>

definition roster_json :: "roster \<Rightarrow> roster" where
  "roster_json r = (\<lambda>k. case r k of Some JUndefined \<Rightarrow> None | Some v \<Rightarrow> Some v | None \<Rightarrow> None)"

section \<open>The meeting table\<close>

text \<open>
  The provider's \<open>Meeting\<close> and \<open>Attendee\<close> objects, with the fields the server reads.
\<close>

record chime_meeting =
  MeetingId :: string
  MeetingArn :: string
  MediaRegion :: string

record chime_attendee =
  AttendeeId :: string
  ExternalUserId :: string

text \<open>
  \<open>MeetingData\<close>: a new entry is \<^verbatim>\<open>{ meeting, attendees: {} }\<close>, so \<open>pipelineId\<close> and
  \<open>recordMode\<close> start out \<open>undefined\<close>. \<open>attendees\<close> is an object in every entry the
  server writes, so the re-initialisation guarded by \<^verbatim>\<open>!meetings[title].attendees\<close> in
  \<open>/api/join\<close> never runs.
\<close>

record meeting_data =
  meeting :: chime_meeting
  attendees :: roster
  pipelineId :: jsval
  recordMode :: jsval

definition new_entry :: "chime_meeting \<Rightarrow> meeting_data" where
  "new_entry m = \<lparr>meeting = m, attendees = Map.empty, pipelineId = JUndefined, recordMode = JUndefined\<rparr>"

type_synonym meetings = "string \<rightharpoonup> meeting_data"

text \<open>
  \<^verbatim>\<open>meetings[title]\<close>: the entry, or an inherited member, which is truthy and has none
  of the \<open>MeetingData\<close> fields, or \<open>undefined\<close>. The handlers only ever write own
  properties, and only under titles whose read was falsy, so the inherited members are
  never overwritten.
\<close>

datatype slot = Own meeting_data | Inherited | Absent

definition lookup :: "meetings \<Rightarrow> string \<Rightarrow> slot" where
  "lookup ms title =
     (case ms title of
        Some md \<Rightarrow> Own md
      | None \<Rightarrow> if title \<in> set object_prototype_keys then Inherited else Absent)"

section \<open>Provider commands and HTTP responses\<close>

text \<open>
  A provider call either resolves with a value or rejects with an error whose
  \<open>message\<close> the handler reports: \<open>Inl message\<close> or \<open>Inr value\<close>. Each handler takes the
  outcome of every call it may make and returns the commands it really sent. The
  \<open>uuid()\<close> tokens (\<open>ClientRequestToken\<close>, \<open>ExternalUserId\<close>) are random and no handler
  branches on them; they are left out of the commands.
\<close>

datatype stream_config = StreamDisabled | StreamEnabled string

datatype composited_config = Composited string string string string

record artifacts_config =
  Audio :: string
  Video :: stream_config
  Content :: stream_config
  CompositedVideo :: "composited_config option"

datatype command =
    CreateMeetingCommand string string
  | CreateAttendeeCommand string
  | CreateMediaCapturePipelineCommand string string artifacts_config
  | DeleteMediaCapturePipelineCommand jsval

datatype response =
    CreateOk "chime_meeting option"
  | JoinOk chime_meeting chime_attendee roster
  | RosterOk roster
  | StartOk string jsval
  | StopOk string
  | Error nat string

type_synonym 'a outcome = "string + 'a"

type_synonym result = "meetings \<times> command list \<times> response"

text \<open>The message of the \<open>TypeError\<close> raised by reading a property of \<open>undefined\<close>.\<close>

definition type_error :: "string \<Rightarrow> string" where
  "type_error prop =
     ''Cannot read properties of undefined (reading '' @ [CHR 0x27] @ prop @ [CHR 0x27] @ '')''"

text \<open>The message of the \<open>TypeError\<close> raised by writing a property of \<open>undefined\<close>.\<close>

definition type_error_set :: "string \<Rightarrow> string" where
  "type_error_set prop =
     ''Cannot set properties of undefined (setting '' @ [CHR 0x27] @ prop @ [CHR 0x27] @ '')''"

section \<open>The handlers\<close>

subsection \<open>POST /api/create\<close>

definition api_create :: "meetings \<Rightarrow> string \<Rightarrow> chime_meeting outcome \<Rightarrow> result" where
  "api_create ms title sent =
     (case lookup ms title of
        Absent \<Rightarrow>
          (case sent of
             Inl msg \<Rightarrow> (ms, [CreateMeetingCommand ''us-east-1'' title], Error 500 msg)
           | Inr m \<Rightarrow>
               (ms(title \<mapsto> new_entry m), [CreateMeetingCommand ''us-east-1'' title],
                CreateOk (Some m)))
      | Own md \<Rightarrow> (ms, [], CreateOk (Some (meeting md)))
      | Inherited \<Rightarrow> (ms, [], CreateOk None))"

subsection \<open>GET /api/roster/:title\<close>

definition api_roster :: "meetings \<Rightarrow> string \<Rightarrow> result" where
  "api_roster ms title =
     (case lookup ms title of
        Absent \<Rightarrow> (ms, [], Error 404 ''Meeting not found'')
      | Own md \<Rightarrow> (ms, [], RosterOk (roster_json (attendees md)))
      | Inherited \<Rightarrow> (ms, [], RosterOk Map.empty))"

subsection \<open>POST /api/join\<close>

text \<open>
  The second half of the handler, once \<open>meeting\<close> is bound and \<open>meetings[title]\<close> is the
  entry \<open>md\<close>: create the attendee and record the name under its id. The name is
  whatever the request body holds under \<open>name\<close>.
\<close>

definition join_attendee ::
  "meetings \<Rightarrow> string \<Rightarrow> meeting_data \<Rightarrow> command list \<Rightarrow> jsval \<Rightarrow> chime_attendee outcome \<Rightarrow> result" where
  "join_attendee ms title md sent_before name sent =
     (let cmds = sent_before @ [CreateAttendeeCommand (MeetingId (meeting md))] in
      case sent of
        Inl msg \<Rightarrow> (ms, cmds, Error 500 msg)
      | Inr a \<Rightarrow>
          (let r = roster_put (attendees md) (AttendeeId a) name in
           (ms(title \<mapsto> md\<lparr>attendees := r\<rparr>), cmds, JoinOk (meeting md) a (roster_json r))))"

definition api_join ::
  "meetings \<Rightarrow> string \<Rightarrow> jsval \<Rightarrow> chime_meeting outcome \<Rightarrow> chime_attendee outcome \<Rightarrow> result" where
  "api_join ms title name sent_meeting sent_attendee =
     (case lookup ms title of
        Absent \<Rightarrow>
          (case sent_meeting of
             Inl msg \<Rightarrow> (ms, [CreateMeetingCommand ''us-east-1'' title], Error 500 msg)
           | Inr m \<Rightarrow>
               join_attendee (ms(title \<mapsto> new_entry m)) title (new_entry m)
                 [CreateMeetingCommand ''us-east-1'' title] name sent_attendee)
      | Own md \<Rightarrow> join_attendee ms title md [] name sent_attendee
      | Inherited \<Rightarrow> (ms, [], Error 500 (type_error ''MeetingId'')))"

subsection \<open>POST /api/record/start\<close>

text \<open>
  \<^verbatim>\<open>process.env.AWS_ACCOUNT_ID || meetingData.meeting.MeetingArn.split(':')[4]\<close>: the
  environment variable when it is set and not empty, else the fifth field of the ARN
  (\<open>undefined\<close> when the ARN has fewer fields, which the template literal of the
  \<open>SourceArn\<close> prints as \<open>undefined\<close>).
\<close>

definition account_id :: "string option \<Rightarrow> chime_meeting \<Rightarrow> string option" where
  "account_id env m =
     (case env of
        Some a \<Rightarrow> if a \<noteq> [] then Some a else index (split (CHR '':'') (MeetingArn m)) 4
      | None \<Rightarrow> index (split (CHR '':'') (MeetingArn m)) 4)"

definition grid_artifacts :: artifacts_config where
  "grid_artifacts =
     \<lparr>Audio = ''AudioOnly'', Video = StreamDisabled, Content = StreamDisabled,
      CompositedVideo = Some (Composited ''Enabled'' ''GridView'' ''HD'' ''PresenterOnly'')\<rparr>"

definition raw_artifacts :: artifacts_config where
  "raw_artifacts =
     \<lparr>Audio = ''AudioOnly'', Video = StreamEnabled ''VideoOnly'',
      Content = StreamEnabled ''ContentOnly'', CompositedVideo = None\<rparr>"

definition artifactsConfig :: "jsval \<Rightarrow> artifacts_config" where
  "artifactsConfig mode = (if mode = JStr ''grid'' then grid_artifacts else raw_artifacts)"

definition createPipelineCommand :: "string option \<Rightarrow> chime_meeting \<Rightarrow> jsval \<Rightarrow> command" where
  "createPipelineCommand env m mode =
     CreateMediaCapturePipelineCommand
       (''arn:aws:chime::'' @ (case account_id env m of Some a \<Rightarrow> a | None \<Rightarrow> ''undefined'') @
        '':meeting:'' @ MeetingId m)
       ''arn:aws:s3:::meet-recordings-rm''
       (artifactsConfig mode)"

text \<open>
  After the provider has resolved, the handler writes \<open>pipelineId\<close> and \<open>recordMode\<close>
  and only then builds the message \<^verbatim>\<open>`Recording started (${mode})`\<close>: when the mode
  has no string conversion the template literal raises inside the \<open>try\<close>, after the
  writes, and the answer is 500 with the message of the \<open>TypeError\<close>.

  On an inherited member \<open>meetingData.pipelineId\<close> is \<open>undefined\<close>, so the handler goes
  on and the first read of \<open>meetingData.meeting.\<dots>\<close> raises inside the \<open>try\<close>:
  of \<open>MeetingArn\<close> when the environment gives no account id, of \<open>MeetingId\<close> otherwise.
\<close>

definition api_record_start ::
  "string option \<Rightarrow> meetings \<Rightarrow> string \<Rightarrow> jsval \<Rightarrow> string outcome \<Rightarrow> result" where
  "api_record_start env ms title mode sent =
     (case lookup ms title of
        Absent \<Rightarrow> (ms, [], Error 404 ''Meeting not found'')
      | Own md \<Rightarrow>
          if truthy (pipelineId md) then (ms, [], Error 400 ''Already recording'')
          else
            (case sent of
               Inl msg \<Rightarrow> (ms, [createPipelineCommand env (meeting md) mode], Error 500 msg)
             | Inr pid \<Rightarrow>
                 (ms(title \<mapsto> md\<lparr>pipelineId := JStr pid, recordMode := mode\<rparr>),
                  [createPipelineCommand env (meeting md) mode],
                  (case to_string mode of
                     Some s \<Rightarrow> StartOk (''Recording started ('' @ s @ '')'') (JStr pid)
                   | None \<Rightarrow> Error 500 cannot_convert)))
      | Inherited \<Rightarrow>
          (ms, [],
           Error 500
             (type_error
                (if (case env of Some a \<Rightarrow> a \<noteq> [] | None \<Rightarrow> False) then ''MeetingId''
                 else ''MeetingArn''))))"

subsection \<open>POST /api/record/stop\<close>

definition api_record_stop :: "meetings \<Rightarrow> string \<Rightarrow> unit outcome \<Rightarrow> result" where
  "api_record_stop ms title sent =
     (case lookup ms title of
        Own md \<Rightarrow>
          if truthy (pipelineId md) then
            (case sent of
               Inl msg \<Rightarrow> (ms, [DeleteMediaCapturePipelineCommand (pipelineId md)], Error 500 msg)
             | Inr _ \<Rightarrow>
                 (ms(title \<mapsto> md\<lparr>pipelineId := JNull\<rparr>),
                  [DeleteMediaCapturePipelineCommand (pipelineId md)],
                  StopOk ''Recording stopped''))
          else (ms, [], Error 400 ''Not recording'')
      | Inherited \<Rightarrow> (ms, [], Error 400 ''Not recording'')
      | Absent \<Rightarrow> (ms, [], Error 400 ''Not recording''))"

section \<open>Sequences of requests\<close>

text \<open>
  The sequential request model: each request carries the outcomes the provider would
  give to the calls its handler may make, and is handled to completion before the next.
  \<open>run\<close> is the table after a sequence of requests, \<open>history\<close> the requests, each with
  the commands its handler sent and its response.
\<close>

datatype request =
    Create string "chime_meeting outcome"
  | Join string jsval "chime_meeting outcome" "chime_attendee outcome"
  | GetRoster string
  | RecordStart string jsval "string outcome"
  | RecordStop string "unit outcome"

fun handle :: "string option \<Rightarrow> meetings \<Rightarrow> request \<Rightarrow> result" where
  "handle env ms (Create title sent) = api_create ms title sent"
| "handle env ms (Join title name sent_meeting sent_attendee) =
     api_join ms title name sent_meeting sent_attendee"
| "handle env ms (GetRoster title) = api_roster ms title"
| "handle env ms (RecordStart title mode sent) = api_record_start env ms title mode sent"
| "handle env ms (RecordStop title sent) = api_record_stop ms title sent"

definition table_after :: "string option \<Rightarrow> meetings \<Rightarrow> request \<Rightarrow> meetings" where
  "table_after env ms req = fst (handle env ms req)"

definition commands_of :: "string option \<Rightarrow> meetings \<Rightarrow> request \<Rightarrow> command list" where
  "commands_of env ms req = fst (snd (handle env ms req))"

definition response_of :: "string option \<Rightarrow> meetings \<Rightarrow> request \<Rightarrow> response" where
  "response_of env ms req = snd (snd (handle env ms req))"

definition run :: "string option \<Rightarrow> meetings \<Rightarrow> request list \<Rightarrow> meetings" where
  "run env ms reqs = foldl (table_after env) ms reqs"

type_synonym entry = "request \<times> command list \<times> response"

fun history :: "string option \<Rightarrow> meetings \<Rightarrow> request list \<Rightarrow> entry list" where
  "history env ms [] = []"
| "history env ms (req # reqs) =
     (req, commands_of env ms req, response_of env ms req) #
       history env (table_after env ms req) reqs"

text \<open>A recording is active for a title when its entry holds a truthy \<open>pipelineId\<close>.\<close>

definition recording :: "meetings \<Rightarrow> string \<Rightarrow> bool" where
  "recording ms title =
     (case lookup ms title of Own md \<Rightarrow> truthy (pipelineId md) | Inherited \<Rightarrow> False | Absent \<Rightarrow> False)"

text \<open>A start, or a stop, for \<open>t\<close> that was answered 200.\<close>

fun start_succeeded :: "string \<Rightarrow> entry \<Rightarrow> bool" where
  "start_succeeded t (RecordStart title mode sent, cmds, StartOk msg pid) = (title = t)"
| "start_succeeded t _ = False"

fun stop_succeeded :: "string \<Rightarrow> entry \<Rightarrow> bool" where
  "stop_succeeded t (RecordStop title sent, cmds, StopOk msg) = (title = t)"
| "stop_succeeded t _ = False"



text \<open>
  \<open>started t log\<close>: some start for \<open>t\<close> in the log succeeded and no stop for \<open>t\<close> has
  succeeded since. \<open>created\<close> and \<open>deleted\<close> count the pipelines the provider has
  created and deleted for \<open>t\<close>.
\<close>

definition started :: "string \<Rightarrow> entry list \<Rightarrow> bool" where
  "started t log =
     foldl (\<lambda>b e. if start_succeeded t e then True else if stop_succeeded t e then False else b)
       False log"




text \<open>The attendee ids minted by the successful joins to a title, in order.\<close>

fun minted :: "string \<Rightarrow> entry list \<Rightarrow> string list" where
  "minted t [] = []"
| "minted t ((Join title name sm sa, cmds, JoinOk m a r) # log) =
     (if title = t then AttendeeId a # minted t log else minted t log)"
| "minted t (e # log) = minted t log"

definition roster_of :: "meetings \<Rightarrow> string \<Rightarrow> roster" where
  "roster_of ms title = (case ms title of Some md \<Rightarrow> attendees md | None \<Rightarrow> Map.empty)"

section \<open>Requests in flight\<close>

text \<open>
  The handlers are \<open>async\<close>: one runs without interruption up to an \<open>await\<close> of a
  provider call, and its remainder runs when that call settles; in between, other
  requests are served. An \<open>Arrive\<close> event runs a handler up to its first \<open>await\<close> (or
  to its answer, when it makes no call); a \<open>Settle\<close> event gives the outcome of the call
  that the \<open>k\<close>-th handler in flight is waiting for and runs it up to its next \<open>await\<close>
  or to its answer. A handler in flight keeps its local variables: the title, the name,
  the mode, and in \<open>/api/join\<close> the \<open>meeting\<close> it bound. The remainders read
  \<open>meetings[title]\<close> again; no handler removes an entry, so the read finds one (if it
  did not, the write to a property of \<open>undefined\<close> would raise).
\<close>

datatype in_flight =
    AwaitCreateMeeting string
  | AwaitJoinMeeting string jsval
  | AwaitJoinAttendee string jsval chime_meeting
  | AwaitCreatePipeline string jsval
  | AwaitDeletePipeline string

record server =
  table :: meetings
  waiting :: "in_flight list"
  issued :: "command list"
  replies :: "response list"

datatype event =
    ArriveCreate string
  | ArriveJoin string jsval
  | ArriveRecordStart string jsval
  | ArriveRecordStop string
  | SettleMeeting nat "chime_meeting outcome"
  | SettleAttendee nat "chime_attendee outcome"
  | SettlePipeline nat "string outcome"
  | SettleDelete nat "unit outcome"

definition drop_nth :: "nat \<Rightarrow> 'a list \<Rightarrow> 'a list" where
  "drop_nth k xs = take k xs @ drop (Suc k) xs"

text \<open>The \<open>k\<close>-th handler in flight answers and is done.\<close>

definition finish :: "server \<Rightarrow> nat \<Rightarrow> response \<Rightarrow> server" where
  "finish sv k resp = sv\<lparr>waiting := drop_nth k (waiting sv), replies := replies sv @ [resp]\<rparr>"

fun settle_meeting :: "server \<Rightarrow> nat \<Rightarrow> in_flight \<Rightarrow> chime_meeting outcome \<Rightarrow> server" where
  "settle_meeting sv k (AwaitCreateMeeting title) (Inl msg) = finish sv k (Error 500 msg)"
| "settle_meeting sv k (AwaitCreateMeeting title) (Inr m) =
     finish (sv\<lparr>table := (table sv)(title \<mapsto> new_entry m)\<rparr>) k (CreateOk (Some m))"
| "settle_meeting sv k (AwaitJoinMeeting title name) (Inl msg) = finish sv k (Error 500 msg)"
| "settle_meeting sv k (AwaitJoinMeeting title name) (Inr m) =
     sv\<lparr>table := (table sv)(title \<mapsto> new_entry m),
        waiting := (waiting sv)[k := AwaitJoinAttendee title name m],
        issued := issued sv @ [CreateAttendeeCommand (MeetingId m)]\<rparr>"
| "settle_meeting sv k w out = sv"

fun settle_attendee :: "server \<Rightarrow> nat \<Rightarrow> in_flight \<Rightarrow> chime_attendee outcome \<Rightarrow> server" where
  "settle_attendee sv k (AwaitJoinAttendee title name m) (Inl msg) = finish sv k (Error 500 msg)"
| "settle_attendee sv k (AwaitJoinAttendee title name m) (Inr a) =
     (case table sv title of
        Some md \<Rightarrow>
          (let r = roster_put (attendees md) (AttendeeId a) name in
           finish (sv\<lparr>table := (table sv)(title \<mapsto> md\<lparr>attendees := r\<rparr>)\<rparr>) k
             (JoinOk m a (roster_json r)))
      | None \<Rightarrow> finish sv k (Error 500 (type_error ''attendees'')))"
| "settle_attendee sv k w out = sv"

fun settle_pipeline :: "server \<Rightarrow> nat \<Rightarrow> in_flight \<Rightarrow> string outcome \<Rightarrow> server" where
  "settle_pipeline sv k (AwaitCreatePipeline title mode) (Inl msg) = finish sv k (Error 500 msg)"
| "settle_pipeline sv k (AwaitCreatePipeline title mode) (Inr pid) =
     (case table sv title of
        Some md \<Rightarrow>
          finish (sv\<lparr>table := (table sv)(title \<mapsto> md\<lparr>pipelineId := JStr pid, recordMode := mode\<rparr>)\<rparr>) k
            (case to_string mode of
               Some s \<Rightarrow> StartOk (''Recording started ('' @ s @ '')'') (JStr pid)
             | None \<Rightarrow> Error 500 cannot_convert)
      | None \<Rightarrow> finish sv k (Error 500 (type_error_set ''pipelineId'')))"
| "settle_pipeline sv k w out = sv"

fun settle_delete :: "server \<Rightarrow> nat \<Rightarrow> in_flight \<Rightarrow> unit outcome \<Rightarrow> server" where
  "settle_delete sv k (AwaitDeletePipeline title) (Inl msg) = finish sv k (Error 500 msg)"
| "settle_delete sv k (AwaitDeletePipeline title) (Inr u) =
     (case table sv title of
        Some md \<Rightarrow>
          finish (sv\<lparr>table := (table sv)(title \<mapsto> md\<lparr>pipelineId := JNull\<rparr>)\<rparr>) k
            (StopOk ''Recording stopped'')
      | None \<Rightarrow> finish sv k (Error 500 (type_error_set ''pipelineId'')))"
| "settle_delete sv k w out = sv"

text \<open>A handler answers without having waited.\<close>

definition reply :: "server \<Rightarrow> response \<Rightarrow> server" where
  "reply sv resp = sv\<lparr>replies := replies sv @ [resp]\<rparr>"

text \<open>A handler sends a command and waits for its outcome.\<close>

definition await :: "server \<Rightarrow> command \<Rightarrow> in_flight \<Rightarrow> server" where
  "await sv cmd w = sv\<lparr>waiting := waiting sv @ [w], issued := issued sv @ [cmd]\<rparr>"

fun deliver :: "string option \<Rightarrow> server \<Rightarrow> event \<Rightarrow> server" where
  "deliver env sv (ArriveCreate title) =
     (case lookup (table sv) title of
        Absent \<Rightarrow> await sv (CreateMeetingCommand ''us-east-1'' title) (AwaitCreateMeeting title)
      | Own md \<Rightarrow> reply sv (CreateOk (Some (meeting md)))
      | Inherited \<Rightarrow> reply sv (CreateOk None))"
| "deliver env sv (ArriveJoin title name) =
     (case lookup (table sv) title of
        Absent \<Rightarrow> await sv (CreateMeetingCommand ''us-east-1'' title) (AwaitJoinMeeting title name)
      | Own md \<Rightarrow>
          await sv (CreateAttendeeCommand (MeetingId (meeting md)))
            (AwaitJoinAttendee title name (meeting md))
      | Inherited \<Rightarrow> reply sv (Error 500 (type_error ''MeetingId'')))"
| "deliver env sv (ArriveRecordStart title mode) =
     (case lookup (table sv) title of
        Absent \<Rightarrow> reply sv (Error 404 ''Meeting not found'')
      | Own md \<Rightarrow>
          if truthy (pipelineId md) then reply sv (Error 400 ''Already recording'')
          else await sv (createPipelineCommand env (meeting md) mode) (AwaitCreatePipeline title mode)
      | Inherited \<Rightarrow>
          reply sv
            (Error 500
               (type_error
                  (if (case env of Some a \<Rightarrow> a \<noteq> [] | None \<Rightarrow> False) then ''MeetingId''
                   else ''MeetingArn''))))"
| "deliver env sv (ArriveRecordStop title) =
     (case lookup (table sv) title of
        Own md \<Rightarrow>
          if truthy (pipelineId md)
          then await sv (DeleteMediaCapturePipelineCommand (pipelineId md)) (AwaitDeletePipeline title)
          else reply sv (Error 400 ''Not recording'')
      | Inherited \<Rightarrow> reply sv (Error 400 ''Not recording'')
      | Absent \<Rightarrow> reply sv (Error 400 ''Not recording''))"
| "deliver env sv (SettleMeeting k out) =
     (if k < length (waiting sv) then settle_meeting sv k (waiting sv ! k) out else sv)"
| "deliver env sv (SettleAttendee k out) =
     (if k < length (waiting sv) then settle_attendee sv k (waiting sv ! k) out else sv)"
| "deliver env sv (SettlePipeline k out) =
     (if k < length (waiting sv) then settle_pipeline sv k (waiting sv ! k) out else sv)"
| "deliver env sv (SettleDelete k out) =
     (if k < length (waiting sv) then settle_delete sv k (waiting sv ! k) out else sv)"

definition idle :: "meetings \<Rightarrow> server" where
  "idle ms = \<lparr>table = ms, waiting = [], issued = [], replies = []\<rparr>"

definition serve :: "string option \<Rightarrow> server \<Rightarrow> event list \<Rightarrow> server" where
  "serve env sv evs = foldl (deliver env) sv evs"

section \<open>The client: notifications and presence\<close>

text \<open>
  The React state of \<open>App\<close> that the presence handler touches: \<open>attendeeRoster\<close>,
  \<open>notifications\<close>, and the callbacks that \<open>setTimeout\<close> has scheduled and not yet run,
  each with the time it is due and the id it removes. Times are \<open>Date.now()\<close>
  milliseconds.
\<close>

record notification =
  id_n :: nat
  message :: string
  type :: string

record app =
  attendeeRoster :: roster
  notifications :: "notification list"
  timeouts :: "(nat \<times> nat) list"

text \<open>
  \<open>showNotification\<close>, with the value \<open>now\<close> that \<open>Date.now()\<close> returns.
\<close>

definition showNotification :: "nat \<Rightarrow> string \<Rightarrow> string \<Rightarrow> app \<Rightarrow> app" where
  "showNotification now msg ty st =
     st\<lparr>notifications := notifications st @ [\<lparr>id_n = now, message = msg, type = ty\<rparr>],
        timeouts := timeouts st @ [(now + 3000, now)]\<rparr>"

text \<open>
  The scheduled callback for id \<open>i\<close>:
  \<^verbatim>\<open>setNotifications(prev => prev.filter(n => n.id !== id))\<close>; \<open>fire k\<close> runs the
  \<open>k\<close>-th pending callback, which is then no longer pending.
\<close>

definition remove_notification :: "nat \<Rightarrow> app \<Rightarrow> app" where
  "remove_notification i st = st\<lparr>notifications := filter (\<lambda>n. id_n n \<noteq> i) (notifications st)\<rparr>"

definition fire :: "nat \<Rightarrow> app \<Rightarrow> app" where
  "fire k st =
     (if k < length (timeouts st)
      then (remove_notification (snd (timeouts st ! k)) st)\<lparr>timeouts := drop_nth k (timeouts st)\<rparr>
      else st)"

text \<open>
  \<^verbatim>\<open>roster[attendeeId] || 'Someone'\<close>: what the roster object gives under the id, or
  the string \<open>Someone\<close> when that is falsy.
\<close>

definition name_or_someone :: "roster \<Rightarrow> string \<Rightarrow> jsval" where
  "name_or_someone r a = (if truthy (roster_get r a) then roster_get r a else JStr ''Someone'')"

text \<open>
  The part of \<open>joinMeeting\<close> after a successful \<open>/api/join\<close>: the roster of the answer,
  when there is one, becomes the state, and \<open>initializeChime\<close> subscribes the presence
  handler. \<open>joinMeeting\<close> and \<open>initializeChime\<close> are closures of the render in which
  the join was submitted, so the \<open>attendeeRoster\<close> that the handler reads by name is the
  value of the state variable in that render, from before the answer: the second
  component.
\<close>

definition joinMeeting :: "roster option \<Rightarrow> app \<Rightarrow> app \<times> roster" where
  "joinMeeting answered st =
     ((case answered of Some r \<Rightarrow> st\<lparr>attendeeRoster := r\<rparr> | None \<Rightarrow> st), attendeeRoster st)"

text \<open>
  What \<^verbatim>\<open>fetch(.../api/roster/...)\<close> followed by \<open>response.json()\<close> gives the handler:
  an exception (caught and logged), or the parsed body, whose \<open>roster\<close> field is there
  on a 200 and missing on a 404.
\<close>

datatype fetched = FetchFailed | Data "roster option"

text \<open>
  \<open>attendeeIdPresenceHandler\<close>. \<open>myAttendeeId\<close> is \<open>joinInfo.Attendee.AttendeeId\<close>;
  \<open>captured\<close> is the \<open>attendeeRoster\<close> of the handler's closure, while the functional
  update \<^verbatim>\<open>setAttendeeRoster(prev => ...)\<close> works on the current state. With
  \<open>present\<close> the template literal is inside the \<open>try\<close>: a name with no string
  conversion raises before \<open>setAttendeeRoster\<close>, and the \<open>catch\<close> logs it. Without
  \<open>present\<close> nothing catches it: the result is \<open>None\<close>, the handler's promise is
  rejected and the state is as it was.
\<close>

definition attendeeIdPresenceHandler ::
  "string \<Rightarrow> roster \<Rightarrow> nat \<Rightarrow> fetched \<Rightarrow> string \<Rightarrow> bool \<Rightarrow> app \<Rightarrow> app option" where
  "attendeeIdPresenceHandler myAttendeeId captured now got attendeeId present st =
     (if present then
        (case got of
           FetchFailed \<Rightarrow> Some st
         | Data None \<Rightarrow> Some st
         | Data (Some r) \<Rightarrow>
             if attendeeId \<noteq> myAttendeeId then
               (case to_string (name_or_someone r attendeeId) of
                  Some s \<Rightarrow>
                    Some ((showNotification now (s @ '' joined'') ''join'' st)\<lparr>attendeeRoster := r\<rparr>)
                | None \<Rightarrow> Some st)
             else Some (st\<lparr>attendeeRoster := r\<rparr>))
      else
        (case to_string (name_or_someone captured attendeeId) of
           Some s \<Rightarrow>
             (let st1 = showNotification now (s @ '' left'') ''leave'' st
              in Some (st1\<lparr>attendeeRoster := (attendeeRoster st1)(attendeeId := None)\<rparr>))
         | None \<Rightarrow> None))"

text \<open>The messages of the \<open>join\<close> notifications in a list.\<close>

definition joined_messages :: "notification list \<Rightarrow> string list" where
  "joined_messages ns = map message (filter (\<lambda>n. type n = ''join'') ns)"

section \<open>Concrete data for the examples\<close>

definition room1 :: chime_meeting where
  "room1 = \<lparr>MeetingId = ''m-1'', MeetingArn = ''arn:aws:chime:us-east-1:123456789012:meeting/m-1'',
            MediaRegion = ''us-east-1''\<rparr>"

definition room1_again :: chime_meeting where
  "room1_again = \<lparr>MeetingId = ''m-2'', MeetingArn = ''arn:aws:chime:us-east-1:123456789012:meeting/m-2'',
            MediaRegion = ''us-east-1''\<rparr>"

definition alice :: chime_attendee where
  "alice = \<lparr>AttendeeId = ''a-1'', ExternalUserId = ''u-1''\<rparr>"

definition bob :: chime_attendee where
  "bob = \<lparr>AttendeeId = ''a-2'', ExternalUserId = ''u-2''\<rparr>"

definition room1_idle :: meetings where
  "room1_idle = [''ROOM1'' \<mapsto> new_entry room1]"

definition room1_recording :: meetings where
  "room1_recording =
     [''ROOM1'' \<mapsto> (new_entry room1)\<lparr>pipelineId := JStr ''p-1'', recordMode := JStr ''grid''\<rparr>]"




definition two_attendees :: roster where
  "two_attendees = [''a-1'' \<mapsto> JStr ''Alice'', ''a-2'' \<mapsto> JStr ''Bob'']"

text \<open>A roster in which the attendee joined under the name \<^verbatim>\<open>{"toString": 1}\<close>.\<close>

definition odd_name :: roster where
  "odd_name = [''a-1'' \<mapsto> JObject None]"

definition fresh_app :: app where
  "fresh_app = \<lparr>attendeeRoster = Map.empty, notifications = [], timeouts = []\<rparr>"

definition two_at_once :: app where
  "two_at_once =
     showNotification 1000 ''Bob left'' ''leave'' (showNotification 1000 ''Alice left'' ''leave'' fresh_app)"

definition two_creates :: "event list" where
  "two_creates =
     [ArriveCreate ''ROOM1'', ArriveCreate ''ROOM1'',
      SettleMeeting 0 (Inr room1), SettleMeeting 0 (Inr room1_again)]"

definition two_joins :: "event list" where
  "two_joins =
     [ArriveJoin ''ROOM1'' (JStr ''Alice''), ArriveJoin ''ROOM1'' (JStr ''Bob''),
      SettleMeeting 0 (Inr room1), SettleMeeting 1 (Inr room1_again),
      SettleAttendee 0 (Inr alice), SettleAttendee 0 (Inr bob)]"

definition two_starts :: "event list" where
  "two_starts =
     [ArriveRecordStart ''ROOM1'' (JStr ''grid''), ArriveRecordStart ''ROOM1'' (JStr ''grid''),
      SettlePipeline 0 (Inr ''p-1''), SettlePipeline 0 (Inr ''p-2'')]"

definition two_stops :: "event list" where
  "two_stops =
     [ArriveRecordStop ''ROOM1'', ArriveRecordStop ''ROOM1'',
      SettleDelete 0 (Inr ()), SettleDelete 0 (Inr ())]"

section \<open>Creating a meeting\<close>

text \<open>
  C1. The claim is that, for every title, two successive create calls return the same
  \<open>MeetingId\<close> both times. For a title that names a member every object inherits, such
  as \<open>constructor\<close>, the read \<^verbatim>\<open>meetings[title]\<close> is truthy although the table has no
  entry: nothing is sent to the provider, nothing is stored,
  \<^verbatim>\<open>meetings[title].meeting\<close> is \<open>undefined\<close>, and both calls answer 200 with no meeting,
  hence with no \<open>MeetingId\<close>, even when the provider would have created one.
\<close>

theorem inherited_title_create_no_meeting:
  "Map.empty ''constructor'' = None \<and>
   api_create Map.empty ''constructor'' (Inr room1) = (Map.empty, [], CreateOk None) \<and>
   api_create (fst (api_create Map.empty ''constructor'' (Inr room1))) ''constructor'' (Inr room1_again) =
     (Map.empty, [], CreateOk None)"
  by (simp add: api_create_def lookup_def object_prototype_keys_def)

text \<open>
  On every other title creation is idempotent: the first call for a title sends one
  \<open>CreateMeetingCommand\<close> and, when the provider resolves, stores the meeting and
  answers with it; every later call sends nothing, changes nothing and answers with
  the stored meeting, whatever the provider would have said.
\<close>

lemma create_idempotent:
  "title \<notin> set object_prototype_keys \<Longrightarrow>
   (ms title = None \<longrightarrow>
      api_create ms title (Inr m) =
        (ms(title \<mapsto> new_entry m), [CreateMeetingCommand ''us-east-1'' title], CreateOk (Some m)) \<and>
      api_create (ms(title \<mapsto> new_entry m)) title out =
        (ms(title \<mapsto> new_entry m), [], CreateOk (Some m)) \<and>
      api_create ms title (Inl msg) = (ms, [CreateMeetingCommand ''us-east-1'' title], Error 500 msg)) \<and>
   (ms title = Some md \<longrightarrow> api_create ms title out = (ms, [], CreateOk (Some (meeting md))))"
  by (simp add: api_create_def lookup_def new_entry_def)

section \<open>The recording state machine\<close>

subsection \<open>What each handler does to the recording state\<close>
























subsection \<open>Mutual exclusion\<close>




section \<open>Joining\<close>

text \<open>
  C3. The claim is that a join succeeds for every title, creating the meeting when there
  is none. For a title that names a member every object inherits, such as
  \<open>constructor\<close>, the read \<^verbatim>\<open>meetings[title]\<close> is truthy although the table has no
  entry: no meeting is created, \<open>meeting\<close> is \<open>undefined\<close>, reading its \<open>MeetingId\<close>
  raises, and the join answers 500 without calling the provider, even when the
  provider would have succeeded. The roster of that title is then reported empty.
\<close>

theorem inherited_title_join_fails:
  "Map.empty ''constructor'' = None \<and>
   api_join Map.empty ''constructor'' (JStr ''X'') (Inr room1) (Inr alice) =
     (Map.empty, [], Error 500 (type_error ''MeetingId'')) \<and>
   api_roster Map.empty ''constructor'' = (Map.empty, [], RosterOk Map.empty)"
  by (simp add: api_join_def api_roster_def lookup_def object_prototype_keys_def)

text \<open>
  On every other title, with a provider that answers both calls, a join succeeds
  whether or not the meeting exists, and the name is assigned under the new attendee
  id in the table and in the roster that the join and the roster endpoint report.
  Unless the id is \<open>__proto__\<close> or the name is missing, that adds the entry. After any
  sequence of requests from the empty table, the keys of a title's roster are the ids
  minted by the successful joins to it, so with distinct ids, none of them
  \<open>__proto__\<close>, the roster has as many keys as there were successful joins.
\<close>

lemma join_creates_or_joins:
  "title \<notin> set object_prototype_keys \<Longrightarrow>
   \<exists>ms' cmds m'. api_join ms title name (Inr m) (Inr a) =
       (ms', cmds, JoinOk m' a (roster_json (roster_put (roster_of ms title) (AttendeeId a) name))) \<and>
     roster_of ms' title = roster_put (roster_of ms title) (AttendeeId a) name \<and>
     api_roster ms' title =
       (ms', [], RosterOk (roster_json (roster_put (roster_of ms title) (AttendeeId a) name)))"
  by (auto simp: api_join_def join_attendee_def api_roster_def lookup_def roster_of_def Let_def
        new_entry_def split: option.splits)

lemma roster_json_put:
  "a \<noteq> ''__proto__'' \<Longrightarrow> name \<noteq> JUndefined \<Longrightarrow>
   roster_json (roster_put r a name) = (roster_json r)(a \<mapsto> name)"
  by (cases name) (auto simp: roster_json_def roster_put_def fun_eq_iff)

lemma roster_put_proto: "roster_put r ''__proto__'' name = r"
  by (simp add: roster_put_def)

lemma roster_json_undefined: "roster_json (r(a \<mapsto> JUndefined)) a = None"
  by (simp add: roster_json_def)

lemma roster_of_upd:
  "roster_of (ms(title \<mapsto> md)) t = (if t = title then attendees md else roster_of ms t)"
  by (simp add: roster_of_def)

lemma join_roster:
  "roster_of (fst (api_join ms title name out_m out_a)) t =
     (case snd (snd (api_join ms title name out_m out_a)) of
        JoinOk m a r \<Rightarrow> if title = t then roster_put (roster_of ms t) (AttendeeId a) name else roster_of ms t
      | _ \<Rightarrow> roster_of ms t)"
  by (auto simp: api_join_def join_attendee_def lookup_def roster_of_upd Let_def new_entry_def
           roster_of_def roster_put_def
           split: option.splits sum.splits)

lemma create_roster: "roster_of (fst (api_create ms title out)) t = roster_of ms t"
  by (auto simp: api_create_def lookup_def roster_of_upd new_entry_def roster_of_def
           split: option.splits sum.splits)

lemma start_roster: "roster_of (fst (api_record_start env ms title mode out)) t = roster_of ms t"
  by (auto simp: api_record_start_def lookup_def roster_of_upd roster_of_def
           split: option.splits sum.splits)

lemma stop_roster: "roster_of (fst (api_record_stop ms title out)) t = roster_of ms t"
  by (auto simp: api_record_stop_def lookup_def roster_of_upd roster_of_def
           split: option.splits sum.splits)

lemma get_roster_roster: "roster_of (fst (api_roster ms title)) t = roster_of ms t"
  by (simp add: api_roster_def split: slot.splits)

lemma step_roster_dom:
  "dom (roster_of (table_after env ms req) t) =
     dom (roster_of ms t) \<union>
       (set (minted t [(req, commands_of env ms req, response_of env ms req)]) - {''__proto__''})"
proof (cases req)
  case (Join title name out_m out_a)
  with join_roster [of ms title name out_m out_a t] show ?thesis
    by (cases "snd (snd (api_join ms title name out_m out_a))")
       (auto simp: table_after_def response_of_def roster_put_def split: if_splits)
qed (simp_all add: table_after_def response_of_def create_roster start_roster stop_roster
       get_roster_roster)

lemma minted_Cons: "minted t (e # log) = minted t [e] @ minted t log"
  by (cases "(t, [e])" rule: minted.cases) auto

lemma roster_dom_run:
  "dom (roster_of (run env ms reqs) t) =
     dom (roster_of ms t) \<union> (set (minted t (history env ms reqs)) - {''__proto__''})"
proof (induction reqs arbitrary: ms)
  case Nil
  then show ?case by (simp add: run_def)
next
  case (Cons req reqs)
  have "run env ms (req # reqs) = run env (table_after env ms req) reqs"
    by (simp add: run_def)
  with Cons.IH [of "table_after env ms req"] step_roster_dom [of env ms req t]
  show ?case
    using minted_Cons [of t "(req, commands_of env ms req, response_of env ms req)"
        "history env (table_after env ms req) reqs"]
    by auto
qed

lemma roster_after_joins:
  "''__proto__'' \<notin> set (minted t (history env Map.empty reqs)) \<Longrightarrow>
   dom (roster_of (run env Map.empty reqs) t) = set (minted t (history env Map.empty reqs)) \<and>
   (distinct (minted t (history env Map.empty reqs)) \<longrightarrow>
      card (dom (roster_of (run env Map.empty reqs) t)) = length (minted t (history env Map.empty reqs)))"
proof -
  assume "''__proto__'' \<notin> set (minted t (history env Map.empty reqs))"
  moreover have "roster_of Map.empty t = Map.empty"
    by (simp add: roster_of_def)
  ultimately
  have "dom (roster_of (run env Map.empty reqs) t) = set (minted t (history env Map.empty reqs))"
    using roster_dom_run [of env Map.empty reqs t] by simp
  then show ?thesis
    by (simp add: distinct_card)
qed

section \<open>Starting a recording\<close>

text \<open>
  C4. The claim is that a start answers 404 whenever no meeting exists for the title.
  For a title that names an inherited member, such as \<open>constructor\<close>, the handler
  takes the inherited member for the meeting data, passes both checks, and raises while
  building the command: it answers 500 with the message of the \<open>TypeError\<close>, not 404,
  and sends nothing to the provider.
\<close>

theorem inherited_title_start_not_404:
  "Map.empty ''constructor'' = None \<and>
   api_record_start None Map.empty ''constructor'' (JStr ''raw'') (Inr ''p-1'') =
     (Map.empty, [], Error 500 (type_error ''MeetingArn'')) \<and>
   api_record_start (Some ''123456789012'') Map.empty ''constructor'' (JStr ''raw'') (Inr ''p-1'') =
     (Map.empty, [], Error 500 (type_error ''MeetingId''))"
  by (simp add: api_record_start_def lookup_def object_prototype_keys_def)

text \<open>
  On every other title, for a mode with a string conversion, the contract holds: 404
  without an entry, 400 while a recording is active, otherwise one pipeline command; on
  success the id and the mode are stored and returned, on failure the table is
  unchanged and the answer is 500 with the provider's message.
\<close>

lemma record_start_contract:
  "title \<notin> set object_prototype_keys \<Longrightarrow> to_string mode = Some s \<Longrightarrow>
   (ms title = None \<longrightarrow> api_record_start env ms title mode out = (ms, [], Error 404 ''Meeting not found'')) \<and>
   (recording ms title \<longrightarrow> api_record_start env ms title mode out = (ms, [], Error 400 ''Already recording'')) \<and>
   (ms title = Some md \<and> \<not> recording ms title \<longrightarrow>
      api_record_start env ms title mode (Inr pid) =
        (ms(title \<mapsto> md\<lparr>pipelineId := JStr pid, recordMode := mode\<rparr>),
         [createPipelineCommand env (meeting md) mode],
         StartOk (''Recording started ('' @ s @ '')'') (JStr pid)) \<and>
      api_record_start env ms title mode (Inl msg) =
        (ms, [createPipelineCommand env (meeting md) mode], Error 500 msg))"
  by (auto simp: api_record_start_def recording_def lookup_def split: option.splits)

text \<open>
  C10. The claim is that on an existing meeting with no active recording every mode
  other than the string \<open>grid\<close> gets the raw configuration and a report of success
  that echoes the mode. For the mode \<^verbatim>\<open>{"toString": 1}\<close> the handler sends the raw
  configuration, the provider creates the pipeline, the handler stores its id and the
  mode, and then the template literal of the message raises: the answer is 500 with
  the message of the \<open>TypeError\<close>, while the table says that the recording is active,
  so that the next start is refused.
\<close>

theorem unconvertible_mode_answers_500:
  "room1_idle ''ROOM1'' = Some (new_entry room1) \<and>
   \<not> truthy (pipelineId (new_entry room1)) \<and>
   JObject None \<noteq> JStr ''grid'' \<and>
   api_record_start None room1_idle ''ROOM1'' (JObject None) (Inr ''p-1'') =
     ([''ROOM1'' \<mapsto> (new_entry room1)\<lparr>pipelineId := JStr ''p-1'', recordMode := JObject None\<rparr>],
      [CreateMediaCapturePipelineCommand ''arn:aws:chime::123456789012:meeting:m-1''
         ''arn:aws:s3:::meet-recordings-rm''
         \<lparr>Audio = ''AudioOnly'', Video = StreamEnabled ''VideoOnly'',
          Content = StreamEnabled ''ContentOnly'', CompositedVideo = None\<rparr>],
      Error 500 ''Cannot convert object to primitive value'') \<and>
   api_record_start None
     [''ROOM1'' \<mapsto> (new_entry room1)\<lparr>pipelineId := JStr ''p-1'', recordMode := JObject None\<rparr>]
     ''ROOM1'' (JStr ''raw'') (Inr ''p-2'') =
     ([''ROOM1'' \<mapsto> (new_entry room1)\<lparr>pipelineId := JStr ''p-1'', recordMode := JObject None\<rparr>],
      [], Error 400 ''Already recording'')"
  by (simp add: api_record_start_def lookup_def room1_idle_def new_entry_def room1_def
        createPipelineCommand_def artifactsConfig_def raw_artifacts_def account_id_def index_def
        cannot_convert_def)

text \<open>
  For every mode other than \<open>grid\<close> the command carries the raw configuration: audio,
  individual video streams and content streams, no composited video. No mode is
  refused before the provider is called; when the provider rejects, the answer is 500
  with its message and the table is unchanged; when it resolves, the id and the mode
  are stored, and every mode with a string conversion is echoed in the message of
  success.
\<close>

lemma start_other_mode_is_raw:
  "ms title = Some md \<Longrightarrow> \<not> truthy (pipelineId md) \<Longrightarrow> mode \<noteq> JStr ''grid'' \<Longrightarrow>
   fst (snd (api_record_start env ms title mode out)) =
     [CreateMediaCapturePipelineCommand
        (''arn:aws:chime::'' @ (case account_id env (meeting md) of Some a \<Rightarrow> a | None \<Rightarrow> ''undefined'') @
         '':meeting:'' @ MeetingId (meeting md))
        ''arn:aws:s3:::meet-recordings-rm''
        \<lparr>Audio = ''AudioOnly'', Video = StreamEnabled ''VideoOnly'',
         Content = StreamEnabled ''ContentOnly'', CompositedVideo = None\<rparr>] \<and>
   snd (snd (api_record_start env ms title mode (Inl msg))) = Error 500 msg \<and>
   fst (api_record_start env ms title mode (Inl msg)) = ms \<and>
   fst (api_record_start env ms title mode (Inr pid)) =
     ms(title \<mapsto> md\<lparr>pipelineId := JStr pid, recordMode := mode\<rparr>) \<and>
   snd (snd (api_record_start env ms title mode (Inr pid))) =
     (case mode of
        JUndefined \<Rightarrow> StartOk ''Recording started (undefined)'' (JStr pid)
      | JNull \<Rightarrow> StartOk ''Recording started (null)'' (JStr pid)
      | JStr s \<Rightarrow> StartOk (''Recording started ('' @ s @ '')'') (JStr pid)
      | JPrim b s \<Rightarrow> StartOk (''Recording started ('' @ s @ '')'') (JStr pid)
      | JObject (Some s) \<Rightarrow> StartOk (''Recording started ('' @ s @ '')'') (JStr pid)
      | JObject None \<Rightarrow> Error 500 ''Cannot convert object to primitive value'')"
  by (cases mode; cases out)
     (auto simp: api_record_start_def lookup_def createPipelineCommand_def artifactsConfig_def
        raw_artifacts_def cannot_convert_def split: option.splits)

section \<open>Stopping a recording\<close>

text \<open>
  C5. A stop that does not succeed leaves the meeting table exactly as it was: with no
  active recording it answers 400 \<open>Not recording\<close> without calling the provider, and when
  the provider's deletion fails it answers 500 with the provider's message and the
  stored \<open>pipelineId\<close> stays. The table changes only when the provider's deletion
  succeeds, and then only by setting that meeting's \<open>pipelineId\<close> to \<open>null\<close>.
\<close>

theorem stop_failure_leaves_state:
  "(\<not> recording ms title \<longrightarrow>
      api_record_stop ms title out = (ms, [], Error 400 ''Not recording'')) \<and>
   (ms title = Some md \<and> truthy (pipelineId md) \<longrightarrow>
      api_record_stop ms title (Inl msg) =
        (ms, [DeleteMediaCapturePipelineCommand (pipelineId md)], Error 500 msg)) \<and>
   (snd (snd (api_record_stop ms title out)) \<noteq> StopOk ''Recording stopped'' \<longrightarrow>
      fst (api_record_stop ms title out) = ms) \<and>
   (fst (api_record_stop ms title out) \<noteq> ms \<longrightarrow>
      (\<exists>md. ms title = Some md \<and> truthy (pipelineId md) \<and> out = Inr () \<and>
         api_record_stop ms title out =
           (ms(title \<mapsto> md\<lparr>pipelineId := JNull\<rparr>),
            [DeleteMediaCapturePipelineCommand (pipelineId md)], StopOk ''Recording stopped'')))"
  by (auto simp: api_record_stop_def recording_def lookup_def
           split: option.splits sum.splits if_splits slot.splits)

theorem stop_failure_leaves_state_witness:
  "api_record_stop Map.empty ''ROOM1'' (Inr ()) = (Map.empty, [], Error 400 ''Not recording'') \<and>
   api_record_stop room1_recording ''ROOM1'' (Inl ''ServiceUnavailable'') =
     (room1_recording, [DeleteMediaCapturePipelineCommand (JStr ''p-1'')], Error 500 ''ServiceUnavailable'') \<and>
   fst (api_record_stop room1_recording ''ROOM1'' (Inr ())) \<noteq> room1_recording"
proof -
  have idle: "\<not> recording Map.empty ''ROOM1''"
    by (simp add: recording_def lookup_def object_prototype_keys_def)
  have active: "room1_recording ''ROOM1'' =
      Some ((new_entry room1)\<lparr>pipelineId := JStr ''p-1'', recordMode := JStr ''grid''\<rparr>) \<and>
      truthy (pipelineId ((new_entry room1)\<lparr>pipelineId := JStr ''p-1'', recordMode := JStr ''grid''\<rparr>))"
    by (simp add: room1_recording_def)
  have a: "api_record_stop Map.empty ''ROOM1'' (Inr ()) = (Map.empty, [], Error 400 ''Not recording'')"
    using stop_failure_leaves_state [of Map.empty "''ROOM1''" "Inr ()"] idle by simp
  have b: "api_record_stop room1_recording ''ROOM1'' (Inl ''ServiceUnavailable'') =
     (room1_recording, [DeleteMediaCapturePipelineCommand (JStr ''p-1'')], Error 500 ''ServiceUnavailable'')"
    using stop_failure_leaves_state [of room1_recording "''ROOM1''" "Inl ''ServiceUnavailable''"
        "(new_entry room1)\<lparr>pipelineId := JStr ''p-1'', recordMode := JStr ''grid''\<rparr>" "''ServiceUnavailable''"] active
    by simp
  have c: "fst (api_record_stop room1_recording ''ROOM1'' (Inr ())) \<noteq> room1_recording"
  proof
    assume "fst (api_record_stop room1_recording ''ROOM1'' (Inr ())) = room1_recording"
    then have "fst (api_record_stop room1_recording ''ROOM1'' (Inr ())) ''ROOM1'' = room1_recording ''ROOM1''"
      by simp
    then show False
      by (simp add: api_record_stop_def lookup_def room1_recording_def new_entry_def)
  qed
  from a b c show ?thesis by simp
qed

section \<open>Presence events\<close>

text \<open>
  C6. On a presence event with \<open>present = true\<close> the handler has fetched the roster
  again. When the answer carries a roster, it emits at most one \<open>joined\<close> notification,
  for the attendee of the event and no other, and none when that attendee is the local
  client; it does not compare the fetched roster with the one it holds. The
  notification shows what the fetched roster object gives under the id: the name, or
  \<open>Someone\<close> when it gives nothing truthy. It then replaces the held roster with the
  fetched one. When what is to be shown has no string conversion, building the
  notification raises, which is caught: nothing is emitted and the held roster stays,
  as when the fetch fails or the answer carries no roster.
\<close>

theorem presence_join_event_only:
  "(a = me \<longrightarrow>
      attendeeIdPresenceHandler me captured now (Data (Some r)) a True st =
        Some (st\<lparr>attendeeRoster := r\<rparr>)) \<and>
   (a \<noteq> me \<longrightarrow>
      attendeeIdPresenceHandler me captured now (Data (Some r)) a True st =
        (case (case r a of
                 Some (JStr n) \<Rightarrow> Some (if n = [] then ''Someone'' else n)
               | Some (JPrim b s) \<Rightarrow> Some (if b then s else ''Someone'')
               | Some (JObject c) \<Rightarrow> c
               | Some JNull \<Rightarrow> Some ''Someone''
               | Some JUndefined \<Rightarrow> Some ''Someone''
               | None \<Rightarrow>
                   Some (if a = ''__proto__'' then ''[object Object]''
                         else if a = ''constructor'' then ''function Object() { [native code] }''
                         else if a \<in> set object_prototype_keys
                         then ''function '' @ a @ ''() { [native code] }''
                         else ''Someone''))
         of
           Some shown \<Rightarrow>
             Some (st\<lparr>notifications :=
                        notifications st @
                          [\<lparr>id_n = now, message = shown @ '' joined'', type = ''join''\<rparr>],
                      timeouts := timeouts st @ [(now + 3000, now)],
                      attendeeRoster := r\<rparr>)
         | None \<Rightarrow> Some st)) \<and>
   attendeeIdPresenceHandler me captured now (Data None) a True st = Some st \<and>
   attendeeIdPresenceHandler me captured now FetchFailed a True st = Some st \<and>
   map_option notifications
     (attendeeIdPresenceHandler me captured now got a True (st\<lparr>attendeeRoster := held\<rparr>)) =
   map_option notifications (attendeeIdPresenceHandler me captured now got a True st)"
proof -
  have shown: "a \<noteq> me \<longrightarrow>
      attendeeIdPresenceHandler me captured now (Data (Some r)) a True st =
        (case (case r a of
                 Some (JStr n) \<Rightarrow> Some (if n = [] then ''Someone'' else n)
               | Some (JPrim b s) \<Rightarrow> Some (if b then s else ''Someone'')
               | Some (JObject c) \<Rightarrow> c
               | Some JNull \<Rightarrow> Some ''Someone''
               | Some JUndefined \<Rightarrow> Some ''Someone''
               | None \<Rightarrow>
                   Some (if a = ''__proto__'' then ''[object Object]''
                         else if a = ''constructor'' then ''function Object() { [native code] }''
                         else if a \<in> set object_prototype_keys
                         then ''function '' @ a @ ''() { [native code] }''
                         else ''Someone''))
         of
           Some shown \<Rightarrow>
             Some (st\<lparr>notifications :=
                        notifications st @
                          [\<lparr>id_n = now, message = shown @ '' joined'', type = ''join''\<rparr>],
                      timeouts := timeouts st @ [(now + 3000, now)],
                      attendeeRoster := r\<rparr>)
         | None \<Rightarrow> Some st)"
  proof (cases "r a")
    case None
    then show ?thesis
      by (simp add: attendeeIdPresenceHandler_def showNotification_def name_or_someone_def
            roster_get_def inherited_member_def)
         (simp add: object_prototype_keys_def)
  next
    case (Some v)
    then show ?thesis
      by (cases v)
         (auto simp: attendeeIdPresenceHandler_def showNotification_def name_or_someone_def
            roster_get_def split: option.splits)
  qed
  have rest: "(a = me \<longrightarrow>
      attendeeIdPresenceHandler me captured now (Data (Some r)) a True st =
        Some (st\<lparr>attendeeRoster := r\<rparr>)) \<and>
   attendeeIdPresenceHandler me captured now (Data None) a True st = Some st \<and>
   attendeeIdPresenceHandler me captured now FetchFailed a True st = Some st"
    by (simp add: attendeeIdPresenceHandler_def)
  have nodiff: "map_option notifications
     (attendeeIdPresenceHandler me captured now got a True (st\<lparr>attendeeRoster := held\<rparr>)) =
   map_option notifications (attendeeIdPresenceHandler me captured now got a True st)"
    by (cases got)
       (auto simp: attendeeIdPresenceHandler_def showNotification_def split: option.splits)
  from shown rest nodiff show ?thesis by blast
qed

theorem presence_join_event_only_witness:
  "attendeeIdPresenceHandler ''a-3'' Map.empty 1000 (Data (Some two_attendees)) ''a-2'' True fresh_app =
     Some \<lparr>attendeeRoster = two_attendees,
           notifications = [\<lparr>id_n = 1000, message = ''Bob joined'', type = ''join''\<rparr>],
           timeouts = [(4000, 1000)]\<rparr> \<and>
   attendeeIdPresenceHandler ''a-2'' Map.empty 1000 (Data (Some two_attendees)) ''a-2'' True fresh_app =
     Some \<lparr>attendeeRoster = two_attendees, notifications = [], timeouts = []\<rparr> \<and>
   attendeeIdPresenceHandler ''a-3'' Map.empty 1000 (Data (Some two_attendees)) ''a-9'' True fresh_app =
     Some \<lparr>attendeeRoster = two_attendees,
           notifications = [\<lparr>id_n = 1000, message = ''Someone joined'', type = ''join''\<rparr>],
           timeouts = [(4000, 1000)]\<rparr>"
proof -
  have known: "''a-2'' \<noteq> ''a-3'' \<and> two_attendees ''a-2'' = Some (JStr ''Bob'') \<and> ''Bob'' \<noteq> []"
    by (simp add: two_attendees_def)
  have unknown: "''a-9'' \<noteq> ''a-3'' \<and> two_attendees ''a-9'' = None \<and> ''a-9'' \<notin> set object_prototype_keys"
    by (simp add: two_attendees_def object_prototype_keys_def)
  note bob = presence_join_event_only [of "''a-2''" "''a-3''" Map.empty 1000 two_attendees fresh_app]
  note self = presence_join_event_only [of "''a-2''" "''a-2''" Map.empty 1000 two_attendees fresh_app]
  note nobody = presence_join_event_only [of "''a-9''" "''a-3''" Map.empty 1000 two_attendees fresh_app]
  have a: "attendeeIdPresenceHandler ''a-3'' Map.empty 1000 (Data (Some two_attendees)) ''a-2'' True fresh_app =
     Some \<lparr>attendeeRoster = two_attendees,
           notifications = [\<lparr>id_n = 1000, message = ''Bob joined'', type = ''join''\<rparr>],
           timeouts = [(4000, 1000)]\<rparr>"
    using bob known by (simp add: fresh_app_def)
  have b: "attendeeIdPresenceHandler ''a-2'' Map.empty 1000 (Data (Some two_attendees)) ''a-2'' True fresh_app =
     Some \<lparr>attendeeRoster = two_attendees, notifications = [], timeouts = []\<rparr>"
    using self by (simp add: fresh_app_def)
  have c: "attendeeIdPresenceHandler ''a-3'' Map.empty 1000 (Data (Some two_attendees)) ''a-9'' True fresh_app =
     Some \<lparr>attendeeRoster = two_attendees,
           notifications = [\<lparr>id_n = 1000, message = ''Someone joined'', type = ''join''\<rparr>],
           timeouts = [(4000, 1000)]\<rparr>"
    using nobody unknown by (simp add: fresh_app_def)
  from a b c show ?thesis by simp
qed

text \<open>
  The claim as stated fails twice. A notification for every attendee id that is new in
  the fetched roster: with an empty held roster and a fetched roster of Alice and Bob,
  the event for Alice emits \<open>Alice joined\<close> only, though Bob is new as well and is not
  the local client. The held roster always replaced: when the attendee of the event
  joined under the name \<^verbatim>\<open>{"toString": 1}\<close>, the held roster stays as it was.
\<close>

theorem presence_join_counterexample:
  "''a-2'' \<in> dom two_attendees - dom (attendeeRoster fresh_app) \<and> ''a-2'' \<noteq> ''a-3'' \<and>
   attendeeIdPresenceHandler ''a-3'' Map.empty 1000 (Data (Some two_attendees)) ''a-1'' True fresh_app =
     Some \<lparr>attendeeRoster = two_attendees,
           notifications = [\<lparr>id_n = 1000, message = ''Alice joined'', type = ''join''\<rparr>],
           timeouts = [(4000, 1000)]\<rparr> \<and>
   ''Bob joined'' \<notin> set (joined_messages [\<lparr>id_n = 1000, message = ''Alice joined'', type = ''join''\<rparr>]) \<and>
   attendeeIdPresenceHandler ''a-3'' Map.empty 1000 (Data (Some odd_name)) ''a-1'' True fresh_app =
     Some fresh_app \<and>
   attendeeRoster fresh_app ''a-1'' = None \<and> odd_name ''a-1'' = Some (JObject None)"
  by (simp add: attendeeIdPresenceHandler_def showNotification_def joined_messages_def
        name_or_someone_def roster_get_def two_attendees_def odd_name_def fresh_app_def)

text \<open>
  C7. The claim is that on a presence event with \<open>present = false\<close> the name of the
  leaver is looked up in the roster the client holds. The handler reads
  \<open>attendeeRoster\<close> through its closure, which is that of the render in which the join
  was submitted: on a first join it is the empty roster of the initial state, not the
  roster the join answered with, and no later update reaches it. So when Alice leaves
  a client that holds her name, the notification is \<open>Someone left\<close>; her id is then
  removed from the held roster.
\<close>

theorem stale_closure_names_nobody:
  "joinMeeting (Some two_attendees) fresh_app = (fresh_app\<lparr>attendeeRoster := two_attendees\<rparr>, Map.empty) \<and>
   attendeeRoster (fst (joinMeeting (Some two_attendees) fresh_app)) ''a-1'' = Some (JStr ''Alice'') \<and>
   attendeeIdPresenceHandler ''a-2'' (snd (joinMeeting (Some two_attendees) fresh_app)) 1000 FetchFailed
       ''a-1'' False (fst (joinMeeting (Some two_attendees) fresh_app)) =
     Some \<lparr>attendeeRoster = [''a-2'' \<mapsto> JStr ''Bob''],
           notifications = [\<lparr>id_n = 1000, message = ''Someone left'', type = ''leave''\<rparr>],
           timeouts = [(4000, 1000)]\<rparr>"
proof -
  have j: "joinMeeting (Some two_attendees) fresh_app =
      (fresh_app\<lparr>attendeeRoster := two_attendees\<rparr>, Map.empty)"
    by (simp add: joinMeeting_def fresh_app_def)
  have r: "two_attendees(''a-1'' := None) = [''a-2'' \<mapsto> JStr ''Bob'']"
    by (auto simp: two_attendees_def fun_eq_iff)
  show ?thesis
    unfolding j
    by (simp add: attendeeIdPresenceHandler_def showNotification_def name_or_someone_def
          roster_get_def object_prototype_keys_def fresh_app_def r)
       (simp add: two_attendees_def)
qed

text \<open>
  What the handler shows is what the roster of its closure gives under the id. The
  removal works on the current roster and is idempotent: handling the same event again
  succeeds again and leaves the roster as the first handling left it.
\<close>

lemma presence_leave:
  "attendeeIdPresenceHandler me captured now got a False st =
     (case (case captured a of
              Some (JStr n) \<Rightarrow> Some (if n = [] then ''Someone'' else n)
            | Some (JPrim b s) \<Rightarrow> Some (if b then s else ''Someone'')
            | Some (JObject c) \<Rightarrow> c
            | Some JNull \<Rightarrow> Some ''Someone''
            | Some JUndefined \<Rightarrow> Some ''Someone''
            | None \<Rightarrow>
                Some (if a = ''__proto__'' then ''[object Object]''
                      else if a = ''constructor'' then ''function Object() { [native code] }''
                      else if a \<in> set object_prototype_keys
                      then ''function '' @ a @ ''() { [native code] }''
                      else ''Someone''))
      of
        Some shown \<Rightarrow>
          Some (st\<lparr>notifications :=
                     notifications st @
                       [\<lparr>id_n = now, message = shown @ '' left'', type = ''leave''\<rparr>],
                   timeouts := timeouts st @ [(now + 3000, now)],
                   attendeeRoster := (attendeeRoster st)(a := None)\<rparr>)
      | None \<Rightarrow> None)"
proof (cases "captured a")
  case None
  then show ?thesis
    by (simp add: attendeeIdPresenceHandler_def showNotification_def name_or_someone_def
          roster_get_def inherited_member_def)
       (simp add: object_prototype_keys_def)
next
  case (Some v)
  then show ?thesis
    by (cases v)
       (auto simp: attendeeIdPresenceHandler_def showNotification_def name_or_someone_def
          roster_get_def split: option.splits)
qed

lemma presence_leave_twice:
  "attendeeIdPresenceHandler me captured now got a False st = Some st' \<Longrightarrow>
   \<exists>st''. attendeeIdPresenceHandler me captured now' got' a False st' = Some st'' \<and>
     attendeeRoster st'' = attendeeRoster st' \<and> attendeeRoster st' = (attendeeRoster st)(a := None)"
  by (auto simp: attendeeIdPresenceHandler_def showNotification_def Let_def split: option.splits)

section \<open>Notifications\<close>

text \<open>
  C8. The claim is that every notification gets an identifier distinct from those of
  the other active notifications, so that a removal never takes another entry. The
  identifier is \<open>Date.now()\<close>: two notifications shown within the same millisecond
  share it. Then the first of the two scheduled removals takes both entries and the
  second finds nothing to remove.
\<close>

theorem same_millisecond_ids_collide:
  "map id_n (notifications two_at_once) = [1000, 1000] \<and>
   timeouts two_at_once = [(4000, 1000), (4000, 1000)] \<and>
   notifications (fire 0 two_at_once) = [] \<and>
   timeouts (fire 0 two_at_once) = [(4000, 1000)] \<and>
   notifications (fire 0 (fire 0 two_at_once)) = notifications (fire 0 two_at_once)"
  by (simp add: two_at_once_def fresh_app_def showNotification_def fire_def remove_notification_def
        drop_nth_def)

text \<open>
  While the identifiers of the active notifications are distinct, a removal takes
  exactly its own entry.
\<close>

lemma filter_by_id:
  "distinct (map id_n ns) \<Longrightarrow> n \<in> set ns \<Longrightarrow> filter (\<lambda>m. id_n m \<noteq> id_n n) ns = remove1 n ns"
proof (induction ns)
  case Nil
  then show ?case by simp
next
  case (Cons m ns)
  show ?case
  proof (cases "m = n")
    case True
    with Cons.prems have "\<forall>k \<in> set ns. id_n k \<noteq> id_n n"
      by (auto simp: image_iff)
    then have "filter (\<lambda>m. id_n m \<noteq> id_n n) ns = ns"
      by (simp add: filter_id_conv)
    with True show ?thesis by simp
  next
    case False
    with Cons.prems have "n \<in> set ns" and "id_n m \<noteq> id_n n"
      by (auto simp: image_iff)
    with Cons.IH Cons.prems False show ?thesis by simp
  qed
qed

lemma remove_notification_by_id:
  "distinct (map id_n (notifications st)) \<Longrightarrow> n \<in> set (notifications st) \<Longrightarrow>
   notifications (remove_notification (id_n n) st) = remove1 n (notifications st)"
  by (simp add: remove_notification_def filter_by_id)

section \<open>Concurrent requests\<close>

text \<open>
  C9. The claim is that two concurrent first callers for a title never cause two
  provider-side creations, and that changes of a title's recording state exclude each
  other. The handlers test the table before their \<open>await\<close> and write it after, with
  nothing held in between. Two create requests that both arrive before the provider
  answers each send a \<open>CreateMeetingCommand\<close> and are answered with different meetings;
  two joins to a missing room do the same, and the first caller's attendee belongs to a
  meeting the table no longer holds. Two start requests that both arrive before the
  provider answers each create a pipeline and both succeed; two stop requests each
  delete the pipeline and both succeed.
\<close>

theorem concurrent_requests_race:
  "issued (serve None (idle Map.empty) two_creates) =
     [CreateMeetingCommand ''us-east-1'' ''ROOM1'', CreateMeetingCommand ''us-east-1'' ''ROOM1''] \<and>
   replies (serve None (idle Map.empty) two_creates) =
     [CreateOk (Some room1), CreateOk (Some room1_again)] \<and>
   issued (serve None (idle Map.empty) two_joins) =
     [CreateMeetingCommand ''us-east-1'' ''ROOM1'', CreateMeetingCommand ''us-east-1'' ''ROOM1'',
      CreateAttendeeCommand ''m-1'', CreateAttendeeCommand ''m-2''] \<and>
   replies (serve None (idle Map.empty) two_joins) =
     [JoinOk room1 alice [''a-1'' \<mapsto> JStr ''Alice''],
      JoinOk room1_again bob [''a-1'' \<mapsto> JStr ''Alice'', ''a-2'' \<mapsto> JStr ''Bob'']] \<and>
   length (issued (serve None (idle room1_idle) two_starts)) = 2 \<and>
   replies (serve None (idle room1_idle) two_starts) =
     [StartOk ''Recording started (grid)'' (JStr ''p-1''),
      StartOk ''Recording started (grid)'' (JStr ''p-2'')] \<and>
   issued (serve None (idle room1_recording) two_stops) =
     [DeleteMediaCapturePipelineCommand (JStr ''p-1''), DeleteMediaCapturePipelineCommand (JStr ''p-1'')] \<and>
   replies (serve None (idle room1_recording) two_stops) =
     [StopOk ''Recording stopped'', StopOk ''Recording stopped'']"
proof -
  have a: "roster_json [''a-1'' \<mapsto> JStr ''Alice''] = [''a-1'' \<mapsto> JStr ''Alice'']"
    by (auto simp: roster_json_def fun_eq_iff)
  have b: "roster_json [''a-1'' \<mapsto> JStr ''Alice'', ''a-2'' \<mapsto> JStr ''Bob''] =
      [''a-1'' \<mapsto> JStr ''Alice'', ''a-2'' \<mapsto> JStr ''Bob'']"
    by (auto simp: roster_json_def fun_eq_iff)
  show ?thesis
    by (simp add: serve_def idle_def lookup_def object_prototype_keys_def drop_nth_def finish_def
        reply_def await_def new_entry_def Let_def two_creates_def two_joins_def two_starts_def
        two_stops_def room1_idle_def room1_recording_def room1_def room1_again_def alice_def
        bob_def roster_put_def a b)
qed

text \<open>
  A request whose provider calls settle before anything else arrives is handled as in
  the sequential model.
\<close>

lemma serve_create_sequential:
  "api_create ms title out = (ms', cmds, resp) \<Longrightarrow>
   serve env (idle ms) [ArriveCreate title, SettleMeeting 0 out] =
     \<lparr>table = ms', waiting = [], issued = cmds, replies = [resp]\<rparr>"
  by (auto simp: api_create_def serve_def idle_def drop_nth_def finish_def reply_def await_def
           split: slot.splits sum.splits)

lemma serve_join_sequential:
  "api_join ms title name out_m out_a = (ms', cmds, resp) \<Longrightarrow>
   serve env (idle ms) [ArriveJoin title name, SettleMeeting 0 out_m, SettleAttendee 0 out_a] =
     \<lparr>table = ms', waiting = [], issued = cmds, replies = [resp]\<rparr>"
  by (auto simp: api_join_def join_attendee_def serve_def idle_def drop_nth_def finish_def reply_def
        await_def lookup_def Let_def new_entry_def
           split: slot.splits sum.splits option.splits if_splits)

lemma serve_record_start_sequential:
  "api_record_start env ms title mode out = (ms', cmds, resp) \<Longrightarrow>
   serve env (idle ms) [ArriveRecordStart title mode, SettlePipeline 0 out] =
     \<lparr>table = ms', waiting = [], issued = cmds, replies = [resp]\<rparr>"
  by (auto simp: api_record_start_def serve_def idle_def drop_nth_def finish_def reply_def
        await_def lookup_def
           split: slot.splits sum.splits option.splits if_splits)

lemma serve_record_stop_sequential:
  "api_record_stop ms title out = (ms', cmds, resp) \<Longrightarrow>
   serve env (idle ms) [ArriveRecordStop title, SettleDelete 0 out] =
     \<lparr>table = ms', waiting = [], issued = cmds, replies = [resp]\<rparr>"
  by (auto simp: api_record_stop_def serve_def idle_def drop_nth_def finish_def reply_def
        await_def lookup_def
           split: slot.splits sum.splits option.splits if_splits)

end
